theory Spec2Isabelle
  imports Complex_Main "HOL-Library.Sublist"
begin

section \<open>Python values\<close>

text \<open>
  A Python \<open>str\<close> is a sequence of Unicode code points, and \<open>len\<close>, slicing and
  \<open>strip\<close> count code points; a string of the model is the list of its code points.
  Literals of the source that are plain ASCII are written \<open>ustr ''...''\<close>.
\<close>

type_synonym ustring = "nat list"

definition ustr :: "string \<Rightarrow> ustring" where
  "ustr s = map of_char s"

definition NL :: nat where
  "NL = 10"

definition SP :: nat where
  "SP = 32"

text \<open>The code points for which \<open>str.isspace\<close> holds; \<open>str.strip()\<close> and the
  regular-expression class \<open>\s\<close> on a \<open>str\<close> pattern both use this set.\<close>

definition is_space :: "nat \<Rightarrow> bool" where
  "is_space c =
     ((9 \<le> c \<and> c \<le> 13) \<or> (28 \<le> c \<and> c \<le> 32) \<or> c = 133 \<or> c = 160 \<or> c = 5760
      \<or> (8192 \<le> c \<and> c \<le> 8202) \<or> c = 8232 \<or> c = 8233 \<or> c = 8239 \<or> c = 8287
      \<or> c = 12288)"

definition strip :: "ustring \<Rightarrow> ustring" where
  "strip s = rev (dropWhile is_space (rev (dropWhile is_space s)))"

text \<open>\<open>s.replace(old, new)\<close> for a non-empty \<open>old\<close> (the source never passes an empty
  one): non-overlapping occurrences, found from the left.\<close>

function py_replace :: "ustring \<Rightarrow> ustring \<Rightarrow> ustring \<Rightarrow> ustring" where
  "py_replace old new [] = []"
| "py_replace old new (c # cs) =
     (if old \<noteq> [] \<and> prefix old (c # cs)
      then new @ py_replace old new (drop (length old) (c # cs))
      else c # py_replace old new cs)"
  by pat_completeness auto
termination
  by (relation "measure (\<lambda>(old, new, s). length s)") auto

text \<open>\<open>sep.join(parts)\<close> on a list of strings.\<close>

fun join_strs :: "ustring \<Rightarrow> ustring list \<Rightarrow> ustring" where
  "join_strs sep [] = []"
| "join_strs sep [x] = x"
| "join_strs sep (x # y # ys) = x @ sep @ join_strs sep (y # ys)"

text \<open>
  What \<open>response.json()\<close> returns: \<open>None\<close>, \<open>bool\<close>, \<open>int\<close>, \<open>float\<close> (its finite
  values), \<open>str\<close>, \<open>list\<close> and \<open>dict\<close>. A \<open>dict\<close> is the list of its items in
  insertion order; the keys of a parsed object are distinct, and a lookup takes the
  first item with the key.
\<close>

datatype json =
    JNull
  | JBool bool
  | JInt int
  | JFloat rat
  | JStr ustring
  | JArr "json list"
  | JObj "(ustring \<times> json) list"

datatype py_error = AttributeError | KeyError | IndexError | TypeError

text \<open>An operation that may raise returns \<open>Inl\<close> of the exception; \<open>then_do\<close> runs the
  rest of a block only when the first part did not raise.\<close>

definition then_do :: "py_error + 'a \<Rightarrow> ('a \<Rightarrow> py_error + 'b) \<Rightarrow> py_error + 'b" where
  "then_do m f = (case m of Inl e \<Rightarrow> Inl e | Inr v \<Rightarrow> f v)"

text \<open>
  Three services of the Python runtime are parameters of the model: the text that
  \<open>str()\<close> gives for numbers, lists and dicts, and the Unicode case mappings
  \<open>str.lower\<close> and \<open>str.upper\<close>.
\<close>

record runtime =
  repr_of :: "json \<Rightarrow> ustring"
  lower_of :: "ustring \<Rightarrow> ustring"
  upper_of :: "ustring \<Rightarrow> ustring"

text \<open>A runtime for evaluating examples: case mapping of the ASCII letters only, and
  every number, list and dict printed as \<open>?\<close>.\<close>

definition ascii_lower :: "nat \<Rightarrow> nat" where
  "ascii_lower c = (if 65 \<le> c \<and> c \<le> 90 then c + 32 else c)"

definition ascii_upper :: "nat \<Rightarrow> nat" where
  "ascii_upper c = (if 97 \<le> c \<and> c \<le> 122 then c - 32 else c)"

definition ascii_rt :: runtime where
  "ascii_rt = \<lparr> repr_of = (\<lambda>v. ustr ''?''), lower_of = map ascii_lower,
                upper_of = map ascii_upper \<rparr>"

text \<open>\<open>bool(x)\<close>, as \<open>if x\<close>, \<open>not x\<close> and \<open>x or y\<close> use it.\<close>

fun truthy :: "json \<Rightarrow> bool" where
  "truthy JNull = False"
| "truthy (JBool b) = b"
| "truthy (JInt i) = (i \<noteq> 0)"
| "truthy (JFloat r) = (r \<noteq> 0)"
| "truthy (JStr s) = (s \<noteq> [])"
| "truthy (JArr xs) = (xs \<noteq> [])"
| "truthy (JObj kvs) = (kvs \<noteq> [])"

text \<open>\<open>x or y\<close>.\<close>

definition py_or :: "json \<Rightarrow> json \<Rightarrow> json" where
  "py_or x y = (if truthy x then x else y)"

text \<open>\<open>x.get(k, d)\<close>: only a dict has the method.\<close>

fun py_get :: "json \<Rightarrow> ustring \<Rightarrow> json \<Rightarrow> py_error + json" where
  "py_get (JObj kvs) k d = Inr (case map_of kvs k of None \<Rightarrow> d | Some v \<Rightarrow> v)"
| "py_get _ k d = Inl AttributeError"

text \<open>\<open>x[k]\<close> for a string \<open>k\<close>.\<close>

fun py_item :: "json \<Rightarrow> ustring \<Rightarrow> py_error + json" where
  "py_item (JObj kvs) k = (case map_of kvs k of None \<Rightarrow> Inl KeyError | Some v \<Rightarrow> Inr v)"
| "py_item _ k = Inl TypeError"

text \<open>\<open>x[0]\<close>.\<close>

fun py_first :: "json \<Rightarrow> py_error + json" where
  "py_first (JArr xs) = (case xs of [] \<Rightarrow> Inl IndexError | x # _ \<Rightarrow> Inr x)"
| "py_first (JStr s) = (case s of [] \<Rightarrow> Inl IndexError | c # _ \<Rightarrow> Inr (JStr [c]))"
| "py_first (JObj kvs) = Inl KeyError"
| "py_first _ = Inl TypeError"

text \<open>The items a \<open>for\<close> loop over \<open>x\<close> visits.\<close>

fun py_iter :: "json \<Rightarrow> py_error + json list" where
  "py_iter (JArr xs) = Inr xs"
| "py_iter (JObj kvs) = Inr (map (\<lambda>kv. JStr (fst kv)) kvs)"
| "py_iter (JStr s) = Inr (map (\<lambda>c. JStr [c]) s)"
| "py_iter _ = Inl TypeError"

text \<open>\<open>k in x\<close> for a string \<open>k\<close>.\<close>

fun py_in :: "ustring \<Rightarrow> json \<Rightarrow> py_error + bool" where
  "py_in k (JObj kvs) = Inr (k \<in> set (map fst kvs))"
| "py_in k (JArr xs) = Inr (JStr k \<in> set xs)"
| "py_in k (JStr s) = Inr (sublist k s)"
| "py_in k _ = Inl TypeError"

text \<open>\<open>str(x)\<close>, which is also what an f-string field \<open>{x}\<close> inserts.\<close>

fun py_str :: "runtime \<Rightarrow> json \<Rightarrow> ustring" where
  "py_str rt (JStr s) = s"
| "py_str rt JNull = ustr ''None''"
| "py_str rt (JBool b) = (if b then ustr ''True'' else ustr ''False'')"
| "py_str rt v = repr_of rt v"

text \<open>\<open>x.replace(old, new)\<close>, \<open>x.upper()\<close> and \<open>x[:n] + s\<close> on a value that need not
  be a string.\<close>

fun str_replace :: "json \<Rightarrow> ustring \<Rightarrow> ustring \<Rightarrow> py_error + json" where
  "str_replace (JStr s) old new = Inr (JStr (py_replace old new s))"
| "str_replace _ old new = Inl AttributeError"

fun str_upper :: "runtime \<Rightarrow> json \<Rightarrow> py_error + ustring" where
  "str_upper rt (JStr s) = Inr (upper_of rt s)"
| "str_upper rt _ = Inl AttributeError"

fun slice_plus :: "json \<Rightarrow> nat \<Rightarrow> ustring \<Rightarrow> py_error + json" where
  "slice_plus (JStr s) n t = Inr (JStr (take n s @ t))"
| "slice_plus _ n t = Inl TypeError"

text \<open>\<open>sep.join(x)\<close>: \<open>x\<close> is iterated and every item must be a string.\<close>

fun strs_of :: "json list \<Rightarrow> py_error + ustring list" where
  "strs_of [] = Inr []"
| "strs_of (JStr s # vs) = then_do (strs_of vs) (\<lambda>ss. Inr (s # ss))"
| "strs_of (_ # vs) = Inl TypeError"

definition py_join :: "ustring \<Rightarrow> json \<Rightarrow> py_error + ustring" where
  "py_join sep x =
     then_do (py_iter x) (\<lambda>items.
     then_do (strs_of items) (\<lambda>ss. Inr (join_strs sep ss)))"

section \<open>Variant 2: \<open>mri_tool.py\<close>\<close>

text \<open>A report row is a dict written as a literal: its columns in order, each with
  its value.\<close>

type_synonym row = "(ustring \<times> json) list"

text \<open>
  \<open>fetch_patient_data(mrn)\<close>. The endpoint is a parameter: \<open>post payload\<close> is
  \<open>Inr\<close> of the parsed body, or \<open>Inl msg\<close> when \<open>requests.post\<close>,
  \<open>raise_for_status\<close> or \<open>response.json()\<close> raised an exception \<open>e\<close> with
  \<open>str(e) = msg\<close>.
\<close>

definition fetch_patient_data :: "(ustring \<Rightarrow> ustring + json) \<Rightarrow> ustring \<Rightarrow> json" where
  "fetch_patient_data post mrn =
     (case post (strip mrn) of
        Inr body \<Rightarrow> body
      | Inl msg \<Rightarrow>
          JObj [(ustr ''error'', JStr msg),
                (ustr ''patient_info'', JObj [(ustr ''mrn'', JStr mrn)])])"

text \<open>The body of the loop over \<open>individual_findings\<close>: the line a finding adds to
  \<open>devices_found\<close>, or nothing when it has no concern.\<close>

definition device_line :: "runtime \<Rightarrow> json \<Rightarrow> py_error + ustring option" where
  "device_line rt item =
     then_do (py_get item (ustr ''has_concern'') JNull) (\<lambda>concern.
     if \<not> truthy concern then Inr None
     else
       then_do (py_get item (ustr ''item_data'') (JObj [])) (\<lambda>item_data.
       then_do (py_get item_data (ustr ''resource'') (JObj [])) (\<lambda>resource.
       then_do (py_get resource (ustr ''deviceName'') (JArr [])) (\<lambda>device_names.
       then_do (if truthy device_names
                then then_do (py_first device_names) (\<lambda>d. py_item d (ustr ''name''))
                else then_do (py_get item (ustr ''description'') (JStr (ustr ''Unknown Device'')))
                       (\<lambda>descr. slice_plus descr 50 (ustr ''...''))) (\<lambda>name.
       then_do (py_get resource (ustr ''modelNumber'') (JStr (ustr ''N/A''))) (\<lambda>model.
       then_do (py_get item (ustr ''concern_level'') (JStr [])) (\<lambda>level.
       then_do (str_upper rt level) (\<lambda>level_up.
       Inr (Some ([8226, SP] @ py_str rt name @ ustr '' (Model: '' @ py_str rt model
                  @ ustr '') - '' @ level_up @ ustr '' risk''))))))))))"

fun findings_loop :: "runtime \<Rightarrow> json list \<Rightarrow> ustring list \<Rightarrow> py_error + ustring list" where
  "findings_loop rt [] devices_found = Inr devices_found"
| "findings_loop rt (item # items) devices_found =
     then_do (device_line rt item) (\<lambda>line.
       findings_loop rt items
         (case line of None \<Rightarrow> devices_found | Some l \<Rightarrow> devices_found @ [l]))"

text \<open>\<open>parse_data_to_row(data)\<close>. The four emoji prefixes that the source removes are
  U+1F3E5, U+1F464, U+1F4C5 and U+26A7, each followed by a space.\<close>

definition parse_data_to_row :: "runtime \<Rightarrow> json \<Rightarrow> py_error + row" where
  "parse_data_to_row rt data =
     then_do (py_in (ustr ''error'') data) (\<lambda>is_error.
     if is_error then
       then_do (py_get data (ustr ''patient_info'') (JObj [])) (\<lambda>info.
       then_do (py_get info (ustr ''mrn'') (JStr (ustr ''Unknown''))) (\<lambda>mrn.
       then_do (py_item data (ustr ''error'')) (\<lambda>err.
       Inr [(ustr ''MRN'', mrn),
            (ustr ''Status'', JStr (ustr ''API Error'')),
            (ustr ''Summary'', err)])))
     else
       then_do (py_get data (ustr ''mri_safety_assessment'') (JObj [])) (\<lambda>assessment.
       then_do (py_get data (ustr ''patient_info'') (JObj [])) (\<lambda>patient.
       then_do (py_get data (ustr ''analysis_details'') (JObj [])) (\<lambda>details.
       then_do (py_get details (ustr ''individual_findings'') (JArr [])) (\<lambda>findings_list.
       then_do (py_iter findings_list) (\<lambda>items.
       then_do (findings_loop rt items []) (\<lambda>devices_found.
       then_do (py_get assessment (ustr ''concerns'') (JArr [])) (\<lambda>concerns.
       then_do (py_join [NL] concerns) (\<lambda>concerns_str.
       then_do (py_get assessment (ustr ''recommendations'') (JArr [])) (\<lambda>recs.
       then_do (py_join [NL] recs) (\<lambda>recs_str.
       then_do (py_get patient (ustr ''mrn'') (JStr [])) (\<lambda>p_mrn.
       then_do (str_replace p_mrn [127973, SP] []) (\<lambda>c_mrn.
       then_do (py_get patient (ustr ''name'') (JStr [])) (\<lambda>p_name.
       then_do (str_replace p_name [128100, SP] []) (\<lambda>c_name.
       then_do (py_get patient (ustr ''dob'') (JStr [])) (\<lambda>p_dob.
       then_do (str_replace p_dob [128197, SP] []) (\<lambda>c_dob.
       then_do (py_get patient (ustr ''gender'') (JStr [])) (\<lambda>p_gender.
       then_do (str_replace p_gender [9895, SP] []) (\<lambda>c_gender.
       then_do (py_get assessment (ustr ''status'') (JStr [])) (\<lambda>status.
       then_do (py_get assessment (ustr ''risk'') (JStr [])) (\<lambda>risk.
       then_do (py_get assessment (ustr ''summary'') (JStr [])) (\<lambda>summary.
       then_do (py_get data (ustr ''timestamp'') (JStr [])) (\<lambda>timestamp.
       Inr [(ustr ''MRN'', c_mrn),
            (ustr ''Name'', c_name),
            (ustr ''DOB'', c_dob),
            (ustr ''Gender'', c_gender),
            (ustr ''Safety Status'', status),
            (ustr ''Risk Level'', risk),
            (ustr ''Devices/Implants Found'', JStr (join_strs [NL] devices_found)),
            (ustr ''Clinical Summary'', summary),
            (ustr ''Key Concerns'', JStr concerns_str),
            (ustr ''Technologist Recommendations'', JStr recs_str),
            (ustr ''Timestamp'', timestamp)])))))))))))))))))))))))"

text \<open>The loop of the script: fetch, flatten, append. An exception of
  \<open>parse_data_to_row\<close> is caught nowhere and ends the run.\<close>

fun report_loop2 ::
  "runtime \<Rightarrow> (ustring \<Rightarrow> ustring + json) \<Rightarrow> ustring list \<Rightarrow> row list \<Rightarrow> py_error + row list" where
  "report_loop2 rt post [] results = Inr results"
| "report_loop2 rt post (mrn # mrns) results =
     then_do (parse_data_to_row rt (fetch_patient_data post mrn)) (\<lambda>flat_row.
       report_loop2 rt post mrns (results @ [flat_row]))"

section \<open>Variant 1: \<open>app.py\<close>\<close>

subsection \<open>Fetching the patient's data\<close>

text \<open>
  What \<open>requests.get(url, headers=headers)\<close> does is a parameter \<open>http\<close> of the
  model, a function of the URL: the call raises (\<open>Transport_Error\<close>), or it returns
  a response with a status code and a body, where the body is \<open>None\<close> when
  \<open>r.json()\<close> raises.
\<close>

datatype http_reply = Transport_Error | Reply nat "json option"

definition safe_get_json :: "(ustring \<Rightarrow> http_reply) \<Rightarrow> ustring \<Rightarrow> json" where
  "safe_get_json http url =
     (case http url of
        Transport_Error \<Rightarrow> JObj []
      | Reply status_code body \<Rightarrow>
          if status_code = 200 then (case body of None \<Rightarrow> JObj [] | Some j \<Rightarrow> j)
          else JObj [])"

definition FHIR_BASE_URL :: ustring where
  "FHIR_BASE_URL = ustr ''https://fhir.epic.com/interconnect-fhir-oauth/api/FHIR/R4''"

definition patient_url :: "ustring \<Rightarrow> ustring" where
  "patient_url mrn = FHIR_BASE_URL @ ustr ''/Patient?identifier='' @ mrn"

definition device_url :: "runtime \<Rightarrow> json \<Rightarrow> ustring" where
  "device_url rt pid = FHIR_BASE_URL @ ustr ''/Device?patient='' @ py_str rt pid"

definition condition_url :: "runtime \<Rightarrow> json \<Rightarrow> ustring" where
  "condition_url rt pid = FHIR_BASE_URL @ ustr ''/Condition?patient='' @ py_str rt pid"

definition procedure_url :: "runtime \<Rightarrow> json \<Rightarrow> ustring" where
  "procedure_url rt pid =
     FHIR_BASE_URL @ ustr ''/Procedure?patient='' @ py_str rt pid @ ustr ''&status=completed''"

definition report_url :: "runtime \<Rightarrow> json \<Rightarrow> ustring" where
  "report_url rt pid = FHIR_BASE_URL @ ustr ''/DiagnosticReport?patient='' @ py_str rt pid"

text \<open>\<open>clean(t)\<close>: \<open>str(t).replace('\n', ' ').strip()[:300]\<close>.\<close>

definition clean :: "runtime \<Rightarrow> json \<Rightarrow> ustring" where
  "clean rt t = take 300 (strip (py_replace [NL] [SP] (py_str rt t)))"

text \<open>The bodies of the four loops over \<open>entry\<close>: what one entry \<open>e\<close> appends.\<close>

definition device_entry :: "runtime \<Rightarrow> json \<Rightarrow> py_error + ustring" where
  "device_entry rt e =
     then_do (py_item e (ustr ''resource'')) (\<lambda>resource.
     then_do (py_get resource (ustr ''deviceName'') (JArr [JObj []])) (\<lambda>names.
     then_do (py_first names) (\<lambda>first_name.
     then_do (py_get first_name (ustr ''name'') JNull) (\<lambda>n.
     Inr (clean rt (py_or n (JStr (ustr ''Unknown Device'')))))))) "

definition condition_entry :: "runtime \<Rightarrow> json \<Rightarrow> py_error + ustring option" where
  "condition_entry rt e =
     then_do (py_item e (ustr ''resource'')) (\<lambda>resource.
     then_do (py_get resource (ustr ''clinicalStatus'') (JObj [])) (\<lambda>clinical_status.
     then_do (py_get clinical_status (ustr ''coding'') (JArr [JObj []])) (\<lambda>coding.
     then_do (py_first coding) (\<lambda>first_coding.
     then_do (py_get first_coding (ustr ''code'') JNull) (\<lambda>status_code.
     if status_code = JStr (ustr ''active'') then
       then_do (py_get resource (ustr ''code'') (JObj [])) (\<lambda>code.
       then_do (py_get code (ustr ''text'') JNull) (\<lambda>text.
       Inr (Some (clean rt (py_or text (JStr (ustr ''Unknown Condition'')))))))
     else Inr None)))))"

definition procedure_entry :: "runtime \<Rightarrow> json \<Rightarrow> py_error + ustring" where
  "procedure_entry rt e =
     then_do (py_item e (ustr ''resource'')) (\<lambda>resource.
     then_do (py_get resource (ustr ''code'') (JObj [])) (\<lambda>code.
     then_do (py_get code (ustr ''text'') JNull) (\<lambda>text.
     then_do (py_get resource (ustr ''performedPeriod'') (JObj [])) (\<lambda>period.
     then_do (py_get period (ustr ''start'') JNull) (\<lambda>start.
     Inr (clean rt (py_or text (JStr (ustr ''Unknown Procedure'')))
          @ ustr '' ('' @ py_str rt (py_or start (JStr [])) @ ustr '')''))))))"

definition imaging_entry :: "runtime \<Rightarrow> json \<Rightarrow> py_error + ustring option" where
  "imaging_entry rt e =
     then_do (py_item e (ustr ''resource'')) (\<lambda>resource.
     then_do (py_get resource (ustr ''category'') (JArr [JObj []])) (\<lambda>categories.
     then_do (py_first categories) (\<lambda>first_category.
     then_do (py_get first_category (ustr ''text'') JNull) (\<lambda>category_text.
     let cat = lower_of rt (py_str rt category_text) in
     if sublist (ustr ''radiology'') cat \<or> sublist (ustr ''imaging'') cat then
       then_do (py_get resource (ustr ''code'') (JObj [])) (\<lambda>code.
       then_do (py_get code (ustr ''text'') JNull) (\<lambda>text.
       Inr (Some (clean rt (py_or text (JStr (ustr ''Study'')))))))
     else Inr None))))"

text \<open>A loop that appends on every entry, and one that appends on some.\<close>

fun append_each :: "(json \<Rightarrow> py_error + ustring) \<Rightarrow> json list \<Rightarrow> ustring list
    \<Rightarrow> py_error + ustring list" where
  "append_each body [] acc = Inr acc"
| "append_each body (e # es) acc =
     then_do (body e) (\<lambda>x. append_each body es (acc @ [x]))"

fun append_some :: "(json \<Rightarrow> py_error + ustring option) \<Rightarrow> json list \<Rightarrow> ustring list
    \<Rightarrow> py_error + ustring list" where
  "append_some body [] acc = Inr acc"
| "append_some body (e # es) acc =
     then_do (body e) (\<lambda>x.
       append_some body es (case x of None \<Rightarrow> acc | Some y \<Rightarrow> acc @ [y]))"

text \<open>\<open>for e in resp.get('entry', [])\<close>.\<close>

definition entries_of :: "json \<Rightarrow> py_error + json list" where
  "entries_of resp = then_do (py_get resp (ustr ''entry'') (JArr [])) py_iter"

definition devices_of :: "runtime \<Rightarrow> json \<Rightarrow> py_error + ustring list" where
  "devices_of rt devs = then_do (entries_of devs) (\<lambda>es. append_each (device_entry rt) es [])"

definition conditions_of :: "runtime \<Rightarrow> json \<Rightarrow> py_error + ustring list" where
  "conditions_of rt conds =
     then_do (entries_of conds) (\<lambda>es. append_some (condition_entry rt) es [])"

definition procedures_of :: "runtime \<Rightarrow> json \<Rightarrow> py_error + ustring list" where
  "procedures_of rt procs =
     then_do (entries_of procs) (\<lambda>es. append_each (procedure_entry rt) es [])"

definition imaging_of :: "runtime \<Rightarrow> json \<Rightarrow> py_error + ustring list" where
  "imaging_of rt rpts = then_do (entries_of rpts) (\<lambda>es. append_some (imaging_entry rt) es [])"

text \<open>The Patient search: \<open>None\<close> when \<open>total\<close> is missing or falsy, else the id and
  the name text of the first entry.\<close>

definition lookup_patient :: "(ustring \<Rightarrow> http_reply) \<Rightarrow> ustring
    \<Rightarrow> py_error + (json \<times> json) option" where
  "lookup_patient http mrn =
     (let pt_resp = safe_get_json http (patient_url mrn) in
      then_do (py_get pt_resp (ustr ''total'') JNull) (\<lambda>total.
      if \<not> truthy total then Inr None
      else
        then_do (py_item pt_resp (ustr ''entry'')) (\<lambda>entry.
        then_do (py_first entry) (\<lambda>e0.
        then_do (py_item e0 (ustr ''resource'')) (\<lambda>resource.
        then_do (py_item resource (ustr ''id'')) (\<lambda>pid.
        then_do (py_item resource (ustr ''name'')) (\<lambda>names.
        then_do (py_first names) (\<lambda>n0.
        then_do (py_item n0 (ustr ''text'')) (\<lambda>name.
        Inr (Some (pid, name)))))))))))"

type_synonym patient_data =
  "json \<times> json \<times> ustring list \<times> ustring list \<times> ustring list \<times> ustring list"

text \<open>\<open>get_patient_data(mrn, token)\<close>; the token only goes into the headers of the
  requests, which \<open>http\<close> stands for.\<close>

definition get_patient_data :: "runtime \<Rightarrow> (ustring \<Rightarrow> http_reply) \<Rightarrow> ustring
    \<Rightarrow> py_error + patient_data" where
  "get_patient_data rt http mrn =
     then_do (lookup_patient http mrn) (\<lambda>found.
     case found of
       None \<Rightarrow> Inr (JNull, JNull, [], [], [], [])
     | Some (pid, name) \<Rightarrow>
         then_do (devices_of rt (safe_get_json http (device_url rt pid))) (\<lambda>list_devs.
         then_do (conditions_of rt (safe_get_json http (condition_url rt pid))) (\<lambda>list_conds.
         then_do (procedures_of rt (safe_get_json http (procedure_url rt pid))) (\<lambda>list_procs.
         then_do (imaging_of rt (safe_get_json http (report_url rt pid))) (\<lambda>list_imgs.
         Inr (pid, name, list_devs, list_conds, list_procs, list_imgs))))))"

subsection \<open>The AI analysis\<close>

definition history_part :: "ustring \<Rightarrow> ustring list \<Rightarrow> ustring" where
  "history_part title xs =
     (if xs = [] then []
      else title @ [NL] @ join_strs [NL] (map (\<lambda>x. ustr ''- '' @ x) xs) @ [NL])"

definition history_text ::
  "ustring list \<Rightarrow> ustring list \<Rightarrow> ustring list \<Rightarrow> ustring list \<Rightarrow> ustring" where
  "history_text devs conds procs imgs =
     ustr ''Patient'' @ [39] @ ustr ''s Clinical History (FHIR Data):'' @ [NL]
     @ replicate 40 45 @ [NL]
     @ history_part (ustr ''DEVICES:'') devs
     @ history_part (ustr ''CONDITIONS:'') conds
     @ history_part (ustr ''SURGERIES:'') procs
     @ history_part (ustr ''IMAGING:'') imgs"

definition truncate_history :: "ustring \<Rightarrow> ustring" where
  "truncate_history history_str =
     (if length history_str > 28000
      then take 28000 history_str @ [NL] @ ustr ''...[TRUNCATED]''
      else history_str)"

definition prompt_head :: ustring where
  "prompt_head = [NL] @ ustr ''    You are an MRI safety expert.'' @ [NL] @ ustr ''    Patient: ''"

definition prompt_tail :: ustring where
  "prompt_tail =
     [NL] @ ustr ''    '' @ [NL]
     @ ustr ''    Determine MRI Safety Status (Safe, Conditional, Unsafe) and Risk Level (Low, Mod, High).'' @ [NL]
     @ ustr ''    Provide key findings and specific recommendations.'' @ [NL]
     @ ustr ''    '' @ [NL]
     @ ustr ''    OUTPUT FORMAT:'' @ [NL]
     @ ustr ''    **MRI Safety Status:** [Status]'' @ [NL]
     @ ustr ''    **Risk Level:** [Level]'' @ [NL]
     @ ustr ''    **Analysis:** [Full detailed analysis]'' @ [NL]
     @ ustr ''    ''"

definition prompt_of :: "runtime \<Rightarrow> json \<Rightarrow> ustring \<Rightarrow> ustring" where
  "prompt_of rt name history_str =
     prompt_head @ py_str rt name @ [NL] @ ustr ''    '' @ history_str @ prompt_tail"

text \<open>
  \<open>analyze_with_ai\<close>. The model is a parameter \<open>gen\<close>: on a prompt it gives
  \<open>Inr\<close> of \<open>resp.text\<close>, or \<open>Inl msg\<close> when \<open>generate_content\<close> or \<open>resp.text\<close>
  raises an \<open>Exception\<close> \<open>e\<close> with \<open>str(e) = msg\<close>.
\<close>

definition analyze_with_ai :: "runtime \<Rightarrow> (ustring \<Rightarrow> ustring + ustring) \<Rightarrow> json
    \<Rightarrow> ustring list \<Rightarrow> ustring list \<Rightarrow> ustring list \<Rightarrow> ustring list \<Rightarrow> ustring" where
  "analyze_with_ai rt gen name devs conds procs imgs =
     (case gen (prompt_of rt name (truncate_history (history_text devs conds procs imgs))) of
        Inr text \<Rightarrow> text
      | Inl msg \<Rightarrow> ustr ''AI Error: '' @ msg)"

subsection \<open>Reading the two fields of the reply\<close>

text \<open>
  \<open>re.search(marker + r"\s*(.*)", s)\<close> for a literal marker: the match starts at the
  first occurrence of the marker, \<open>\s*\<close> takes all the white space after it, and group
  1 is the text up to the next newline. \<open>after_marker\<close> is what follows the first
  occurrence.
\<close>

fun after_marker :: "ustring \<Rightarrow> ustring \<Rightarrow> ustring option" where
  "after_marker m [] = (if m = [] then Some [] else None)"
| "after_marker m (c # cs) =
     (if prefix m (c # cs) then Some (drop (length m) (c # cs)) else after_marker m cs)"

definition search_group1 :: "ustring \<Rightarrow> ustring \<Rightarrow> ustring option" where
  "search_group1 marker s =
     (case after_marker marker s of
        None \<Rightarrow> None
      | Some rest \<Rightarrow> Some (takeWhile (\<lambda>c. c \<noteq> NL) (dropWhile is_space rest)))"

definition status_marker :: ustring where
  "status_marker = ustr ''**MRI Safety Status:**''"

definition risk_marker :: ustring where
  "risk_marker = ustr ''**Risk Level:**''"

definition extract_field :: "ustring \<Rightarrow> ustring \<Rightarrow> ustring" where
  "extract_field marker ai_report =
     (case search_group1 marker ai_report of
        None \<Rightarrow> ustr ''Unknown''
      | Some g \<Rightarrow> strip g)"

subsection \<open>The report\<close>

definition report_row :: "ustring \<Rightarrow> json \<Rightarrow> ustring \<Rightarrow> ustring list \<Rightarrow> ustring list \<Rightarrow> row" where
  "report_row mrn name ai_report devs conds =
     [(ustr ''MRN'', JStr mrn),
      (ustr ''Name'', name),
      (ustr ''Safety Status'', JStr (extract_field status_marker ai_report)),
      (ustr ''Risk Level'', JStr (extract_field risk_marker ai_report)),
      (ustr ''Full Analysis'', JStr ai_report),
      (ustr ''Devices'', JStr (join_strs (ustr '' | '') devs)),
      (ustr ''Conditions'', JStr (join_strs (ustr '' | '') conds))]"

text \<open>One pass of the loop: the row for \<open>mrn\<close>, or \<open>None\<close> when the patient is
  skipped as not found. An exception of \<open>get_patient_data\<close> is caught nowhere.\<close>

definition process_patient :: "runtime \<Rightarrow> (ustring \<Rightarrow> http_reply)
    \<Rightarrow> (ustring \<Rightarrow> ustring + ustring) \<Rightarrow> ustring \<Rightarrow> py_error + row option" where
  "process_patient rt http gen mrn =
     then_do (get_patient_data rt http mrn) (\<lambda>(pid, name, devs, conds, procs, imgs).
     if \<not> truthy pid then Inr None
     else Inr (Some (report_row mrn name
                 (analyze_with_ai rt gen name devs conds procs imgs) devs conds)))"

fun report_loop1 :: "runtime \<Rightarrow> (ustring \<Rightarrow> http_reply) \<Rightarrow> (ustring \<Rightarrow> ustring + ustring)
    \<Rightarrow> ustring list \<Rightarrow> row list \<Rightarrow> py_error + row list" where
  "report_loop1 rt http gen [] results = Inr results"
| "report_loop1 rt http gen (mrn # mrns) results =
     then_do (process_patient rt http gen mrn) (\<lambda>r.
       report_loop1 rt http gen mrns
         (case r of None \<Rightarrow> results | Some flat_row \<Rightarrow> results @ [flat_row]))"

section \<open>Shapes of the inputs\<close>

definition is_dict :: "json \<Rightarrow> bool" where
  "is_dict v = (case v of JObj _ \<Rightarrow> True | _ \<Rightarrow> False)"

text \<open>The field \<open>k\<close> of a dict is missing or is itself a dict.\<close>

definition dict_if_present :: "(ustring \<times> json) list \<Rightarrow> ustring \<Rightarrow> bool" where
  "dict_if_present kvs k = (case map_of kvs k of None \<Rightarrow> True | Some v \<Rightarrow> is_dict v)"

text \<open>A request that raised a transport error or came back with a status other than
  200.\<close>

definition failed :: "http_reply \<Rightarrow> bool" where
  "failed r = (case r of Transport_Error \<Rightarrow> True | Reply status_code body \<Rightarrow> status_code \<noteq> 200)"


text \<open>An identifier whose Patient search gave an entry with a truthy id.\<close>

definition patient_found :: "(ustring \<Rightarrow> http_reply) \<Rightarrow> ustring \<Rightarrow> bool" where
  "patient_found http mrn =
     (case lookup_patient http mrn of
        Inr (Some (pid, name)) \<Rightarrow> truthy pid
      | _ \<Rightarrow> False)"

text \<open>The columns of the three dict literals that build a row.\<close>

definition columns1 :: "ustring list" where
  "columns1 = [ustr ''MRN'', ustr ''Name'', ustr ''Safety Status'', ustr ''Risk Level'',
               ustr ''Full Analysis'', ustr ''Devices'', ustr ''Conditions'']"

definition columns2 :: "ustring list" where
  "columns2 = [ustr ''MRN'', ustr ''Name'', ustr ''DOB'', ustr ''Gender'',
               ustr ''Safety Status'', ustr ''Risk Level'', ustr ''Devices/Implants Found'',
               ustr ''Clinical Summary'', ustr ''Key Concerns'',
               ustr ''Technologist Recommendations'', ustr ''Timestamp'']"

definition error_columns :: "ustring list" where
  "error_columns = [ustr ''MRN'', ustr ''Status'', ustr ''Summary'']"

text \<open>The field \<open>k\<close> of the dict that a response holds under \<open>container\<close>;
  \<open>None\<close> when the response has no such dict or the dict has no such field.\<close>

definition sub_field :: "(ustring \<times> json) list \<Rightarrow> ustring \<Rightarrow> ustring \<Rightarrow> json option" where
  "sub_field kvs container k =
     (case map_of kvs container of Some (JObj d) \<Rightarrow> map_of d k | _ \<Rightarrow> None)"

section \<open>Example environments\<close>

text \<open>A Patient search result with one entry, and a server that knows this patient
  under the identifier 203715 and answers every other request with status 500.\<close>

definition patient_reply :: json where
  "patient_reply =
     JObj [(ustr ''total'', JInt 1),
           (ustr ''entry'', JArr [JObj [(ustr ''resource'',
              JObj [(ustr ''id'', JStr (ustr ''p1'')),
                    (ustr ''name'', JArr [JObj [(ustr ''text'', JStr (ustr ''Ann Lee''))]])])]])]"

definition patient_only_http :: "ustring \<Rightarrow> http_reply" where
  "patient_only_http url =
     (if url = patient_url (ustr ''203715'') then Reply 200 (Some patient_reply)
      else Reply 500 None)"

text \<open>A server that cannot be reached.\<close>

definition dead_http :: "ustring \<Rightarrow> http_reply" where
  "dead_http url = Transport_Error"

text \<open>Two models whose call raises: one with a plain message, one whose message quotes
  a line of generated text.\<close>

definition quota_gen :: "ustring \<Rightarrow> ustring + ustring" where
  "quota_gen prompt = Inl (ustr ''quota exceeded'')"

definition blocked_gen :: "ustring \<Rightarrow> ustring + ustring" where
  "blocked_gen prompt = Inl (ustr ''blocked: **Risk Level:** High'')"




text \<open>An endpoint that knows the patient 203715 and times out on every other
  identifier, one that refuses every connection, and one that answers with a
  \<open>null\<close> date of birth.\<close>

definition mixed_post :: "ustring \<Rightarrow> ustring + json" where
  "mixed_post payload =
     (if payload = ustr ''203715''
      then Inr (JObj [(ustr ''patient_info'', JObj [(ustr ''mrn'', JStr (ustr ''203715''))]),
                      (ustr ''mri_safety_assessment'', JObj [(ustr ''status'', JStr (ustr ''Safe''))])])
      else Inl (ustr ''timeout''))"

definition down_post :: "ustring \<Rightarrow> ustring + json" where
  "down_post payload = Inl (ustr ''Connection refused'')"

definition null_dob_post :: "ustring \<Rightarrow> ustring + json" where
  "null_dob_post payload =
     Inr (JObj [(ustr ''patient_info'',
                 JObj [(ustr ''mrn'', JStr payload), (ustr ''name'', JStr (ustr ''Ann Lee'')),
                       (ustr ''dob'', JNull)])])"

text \<open>A successful response of the endpoint with only the identifier and the status.\<close>

definition partial_reply :: "(ustring \<times> json) list" where
  "partial_reply =
     [(ustr ''patient_info'', JObj [(ustr ''mrn'', JStr (ustr ''203715''))]),
      (ustr ''mri_safety_assessment'', JObj [(ustr ''status'', JStr (ustr ''Safe''))])]"

section \<open>Properties\<close>

subsection \<open>General facts\<close>

lemma then_do_Inr: "then_do (Inr x) f = f x"
  by (simp add: then_do_def)

lemma then_do_Inl: "then_do (Inl e) f = Inl e"
  by (simp add: then_do_def)

lemma safe_get_json_failed: "failed (http url) \<Longrightarrow> safe_get_json http url = JObj []"
  by (simp add: safe_get_json_def failed_def split: http_reply.splits)

lemma empty_response_lists:
  "devices_of rt (JObj []) = Inr []" "conditions_of rt (JObj []) = Inr []"
  "procedures_of rt (JObj []) = Inr []" "imaging_of rt (JObj []) = Inr []"
  by (simp_all add: devices_of_def conditions_of_def procedures_of_def imaging_of_def
        entries_of_def then_do_def)

lemma lookup_patient_failed:
  "failed (http (patient_url mrn)) \<Longrightarrow> lookup_patient http mrn = Inr None"
  by (simp add: lookup_patient_def safe_get_json_failed then_do_def)

lemma process_found:
  assumes "get_patient_data rt http mrn = Inr (pid, name, devs, conds, procs, imgs)"
    and "truthy pid"
  shows "process_patient rt http gen mrn =
           Inr (Some (report_row mrn name
                        (analyze_with_ai rt gen name devs conds procs imgs) devs conds))"
  using assms by (simp add: process_patient_def then_do_def)

lemma then_do_Inr_iff:
  "then_do m f = Inr r \<longleftrightarrow> (\<exists>v. m = Inr v \<and> f v = Inr r)"
  by (cases m) (simp_all add: then_do_def)

text \<open>The example server.\<close>

lemma example_lookup:
  "lookup_patient patient_only_http (ustr ''203715'') =
     Inr (Some (JStr (ustr ''p1''), JStr (ustr ''Ann Lee'')))"
  by (simp add: lookup_patient_def patient_only_http_def safe_get_json_def patient_reply_def
        then_do_def) (simp add: ustr_def)

lemma other_urls:
  "device_url rt pid \<noteq> patient_url m" "condition_url rt pid \<noteq> patient_url m"
  "procedure_url rt pid \<noteq> patient_url m" "report_url rt pid \<noteq> patient_url m"
  by (simp_all add: device_url_def condition_url_def procedure_url_def report_url_def
        patient_url_def ustr_def)

lemma example_failed:
  "failed (patient_only_http (device_url rt pid))"
  "failed (patient_only_http (condition_url rt pid))"
  "failed (patient_only_http (procedure_url rt pid))"
  "failed (patient_only_http (report_url rt pid))"
  by (simp_all add: patient_only_http_def failed_def other_urls)

lemma example_data:
  "get_patient_data rt patient_only_http (ustr ''203715'') =
     Inr (JStr (ustr ''p1''), JStr (ustr ''Ann Lee''), [], [], [], [])"
  by (simp add: get_patient_data_def example_lookup safe_get_json_failed example_failed
        empty_response_lists then_do_def)


subsection \<open>The error branch of \<open>parse_data_to_row\<close>\<close>

lemma has_key_iff: "k \<in> set (map fst kvs) \<longleftrightarrow> map_of kvs k \<noteq> None"
  by (simp add: map_of_eq_None_iff)

lemma error_branch:
  assumes "map_of kvs (ustr ''error'') = Some err"
    and "dict_if_present kvs (ustr ''patient_info'')"
  shows "parse_data_to_row rt (JObj kvs) =
           Inr [(ustr ''MRN'',
                  (case map_of kvs (ustr ''patient_info'') of
                     Some (JObj info) \<Rightarrow>
                       (case map_of info (ustr ''mrn'') of
                          None \<Rightarrow> JStr (ustr ''Unknown'') | Some m \<Rightarrow> m)
                   | _ \<Rightarrow> JStr (ustr ''Unknown''))),
                (ustr ''Status'', JStr (ustr ''API Error'')),
                (ustr ''Summary'', err)]"
proof -
  have "ustr ''error'' \<in> set (map fst kvs)"
    using assms(1) by (metis has_key_iff option.distinct(1))
  with assms show ?thesis
    by (auto simp: parse_data_to_row_def then_do_def dict_if_present_def is_dict_def
             split: option.splits json.splits)
qed

text \<open>
  C4 (as amended). A response dict with \<open>"error": "timeout"\<close> whose \<open>patient_info\<close> is
  missing or is a dict is flattened to a row with Status \<open>"API Error"\<close> and Summary
  \<open>"timeout"\<close>.
\<close>

theorem error_timeout_row:
  assumes "map_of kvs (ustr ''error'') = Some (JStr (ustr ''timeout''))"
    and "dict_if_present kvs (ustr ''patient_info'')"
  shows "\<exists>row. parse_data_to_row rt (JObj kvs) = Inr row
           \<and> map_of row (ustr ''Status'') = Some (JStr (ustr ''API Error''))
           \<and> map_of row (ustr ''Summary'') = Some (JStr (ustr ''timeout''))"
  using error_branch [OF assms] by (simp add: ustr_def)

theorem error_timeout_row_witness:
  "map_of [(ustr ''error'', JStr (ustr ''timeout'')),
           (ustr ''patient_info'', JObj [(ustr ''mrn'', JStr (ustr ''203715''))])]
     (ustr ''error'') = Some (JStr (ustr ''timeout''))
   \<and> dict_if_present [(ustr ''error'', JStr (ustr ''timeout'')),
           (ustr ''patient_info'', JObj [(ustr ''mrn'', JStr (ustr ''203715''))])]
        (ustr ''patient_info'')
   \<and> (\<exists>row. parse_data_to_row ascii_rt
          (JObj [(ustr ''error'', JStr (ustr ''timeout'')),
                 (ustr ''patient_info'', JObj [(ustr ''mrn'', JStr (ustr ''203715''))])])
          = Inr row
        \<and> map_of row (ustr ''Status'') = Some (JStr (ustr ''API Error''))
        \<and> map_of row (ustr ''Summary'') = Some (JStr (ustr ''timeout'')))"
proof -
  let ?kvs = "[(ustr ''error'', JStr (ustr ''timeout'')),
               (ustr ''patient_info'', JObj [(ustr ''mrn'', JStr (ustr ''203715''))])]"
  have a: "map_of ?kvs (ustr ''error'') = Some (JStr (ustr ''timeout''))"
    by simp
  have b: "dict_if_present ?kvs (ustr ''patient_info'')"
    by (simp add: dict_if_present_def is_dict_def ustr_def)
  show ?thesis
    using a b error_timeout_row [OF a b, of ascii_rt] by blast
qed

text \<open>The claim as stated fails when the response carries \<open>"patient_info": null\<close>:
  \<open>data.get("patient_info", {})\<close> is then \<open>None\<close>, which has no \<open>get\<close>.\<close>

theorem error_timeout_null_info_counterexample:
  "parse_data_to_row ascii_rt
     (JObj [(ustr ''error'', JStr (ustr ''timeout'')), (ustr ''patient_info'', JNull)])
   = Inl AttributeError"
  by (simp add: parse_data_to_row_def then_do_def ustr_def)

text \<open>
  C10 (as amended). A response dict that has the key \<open>"error"\<close>, and whose
  \<open>patient_info\<close> is missing or is a dict, is flattened to a row with exactly the
  columns MRN, Status and Summary, the Summary being the error value, whatever other
  fields the response has.
\<close>

theorem error_branch_three_columns:
  assumes "map_of kvs (ustr ''error'') = Some err"
    and "dict_if_present kvs (ustr ''patient_info'')"
  shows "\<exists>row. parse_data_to_row rt (JObj kvs) = Inr row
           \<and> map fst row = [ustr ''MRN'', ustr ''Status'', ustr ''Summary'']
           \<and> map_of row (ustr ''Status'') = Some (JStr (ustr ''API Error''))
           \<and> map_of row (ustr ''Summary'') = Some err"
  using error_branch [OF assms] by (simp add: ustr_def)

theorem error_branch_three_columns_witness:
  "map_of [(ustr ''mri_safety_assessment'', JNull),
           (ustr ''analysis_details'', JInt 5),
           (ustr ''patient_info'', JObj [(ustr ''name'', JStr (ustr ''A''))]),
           (ustr ''error'', JStr (ustr ''HTTP 500''))]
     (ustr ''error'') = Some (JStr (ustr ''HTTP 500''))
   \<and> dict_if_present [(ustr ''mri_safety_assessment'', JNull),
           (ustr ''analysis_details'', JInt 5),
           (ustr ''patient_info'', JObj [(ustr ''name'', JStr (ustr ''A''))]),
           (ustr ''error'', JStr (ustr ''HTTP 500''))]
        (ustr ''patient_info'')
   \<and> (\<exists>row. parse_data_to_row ascii_rt
          (JObj [(ustr ''mri_safety_assessment'', JNull),
                 (ustr ''analysis_details'', JInt 5),
                 (ustr ''patient_info'', JObj [(ustr ''name'', JStr (ustr ''A''))]),
                 (ustr ''error'', JStr (ustr ''HTTP 500''))])
          = Inr row
        \<and> map fst row = [ustr ''MRN'', ustr ''Status'', ustr ''Summary'']
        \<and> map_of row (ustr ''Status'') = Some (JStr (ustr ''API Error''))
        \<and> map_of row (ustr ''Summary'') = Some (JStr (ustr ''HTTP 500'')))"
proof -
  let ?kvs = "[(ustr ''mri_safety_assessment'', JNull),
               (ustr ''analysis_details'', JInt 5),
               (ustr ''patient_info'', JObj [(ustr ''name'', JStr (ustr ''A''))]),
               (ustr ''error'', JStr (ustr ''HTTP 500''))]"
  have a: "map_of ?kvs (ustr ''error'') = Some (JStr (ustr ''HTTP 500''))"
    by (simp add: ustr_def)
  have b: "dict_if_present ?kvs (ustr ''patient_info'')"
    by (simp add: dict_if_present_def is_dict_def ustr_def)
  show ?thesis
    using a b error_branch_three_columns [OF a b, of ascii_rt] by blast
qed

text \<open>The claim as stated fails when \<open>patient_info\<close> is present and is not a dict,
  here the identifier as a string: a \<open>str\<close> has no \<open>get\<close>.\<close>

theorem error_branch_string_info_counterexample:
  "parse_data_to_row ascii_rt
     (JObj [(ustr ''error'', JStr (ustr ''HTTP 500'')),
            (ustr ''patient_info'', JStr (ustr ''203715''))])
   = Inl AttributeError"
  by (simp add: parse_data_to_row_def then_do_def ustr_def)

subsection \<open>Reading the status and the risk level\<close>

lemma after_marker_None_iff: "after_marker m s = None \<longleftrightarrow> \<not> sublist m s"
  by (induction s) (auto simp: sublist_Cons_right)

lemma extract_field_absent:
  "\<not> sublist m ai_report \<Longrightarrow> extract_field m ai_report = ustr ''Unknown''"
  by (simp add: extract_field_def search_group1_def after_marker_None_iff [symmetric])

text \<open>
  C7. For every reply that does not contain \<open>**Risk Level:**\<close> the risk field of the
  row is \<open>"Unknown"\<close>, and for every reply that does not contain
  \<open>**MRI Safety Status:**\<close> the status field is \<open>"Unknown"\<close>. The extraction is a
  total function of the reply: it raises nothing.
\<close>

theorem missing_marker_unknown:
  "(\<not> sublist risk_marker ai_report \<longrightarrow>
      extract_field risk_marker ai_report = ustr ''Unknown''
      \<and> map_of (report_row mrn name ai_report devs conds) (ustr ''Risk Level'')
          = Some (JStr (ustr ''Unknown'')))
   \<and> (\<not> sublist status_marker ai_report \<longrightarrow>
      extract_field status_marker ai_report = ustr ''Unknown''
      \<and> map_of (report_row mrn name ai_report devs conds) (ustr ''Safety Status'')
          = Some (JStr (ustr ''Unknown'')))"
  by (simp add: extract_field_absent report_row_def) (simp add: ustr_def)

theorem missing_marker_unknown_witness:
  "\<not> sublist risk_marker (ustr ''**MRI Safety Status:** Safe'')
   \<and> map_of (report_row (ustr ''203715'') (JStr (ustr ''A''))
               (ustr ''**MRI Safety Status:** Safe'') [] []) (ustr ''Risk Level'')
       = Some (JStr (ustr ''Unknown''))
   \<and> \<not> sublist status_marker (ustr ''The model is overloaded.'')
   \<and> map_of (report_row (ustr ''203715'') (JStr (ustr ''A''))
               (ustr ''The model is overloaded.'') [] []) (ustr ''Safety Status'')
       = Some (JStr (ustr ''Unknown''))"
proof -
  have a: "\<not> sublist risk_marker (ustr ''**MRI Safety Status:** Safe'')"
    by (simp add: risk_marker_def ustr_def sublist_code)
  have b: "\<not> sublist status_marker (ustr ''The model is overloaded.'')"
    by (simp add: status_marker_def ustr_def sublist_code)
  show ?thesis
    using a b
      missing_marker_unknown [of "ustr ''**MRI Safety Status:** Safe''" "ustr ''203715''"
        "JStr (ustr ''A'')" "[]" "[]"]
      missing_marker_unknown [of "ustr ''The model is overloaded.''" "ustr ''203715''"
        "JStr (ustr ''A'')" "[]" "[]"]
    by blast
qed

subsection \<open>The history text in the prompt\<close>



subsection \<open>Failing requests\<close>

text \<open>
  C2 (as amended). A Device, Condition, Procedure or DiagnosticReport request that
  raises a transport error or returns a status other than 200 leaves the list of that
  category empty and changes nothing else: \<open>get_patient_data\<close> goes on with the
  other categories, and when all four fail it returns the bundle with four empty lists
  and the row is produced. A failing Patient request makes \<open>get_patient_data\<close> return
  the not-found bundle, and no row is produced for the identifier.
\<close>

theorem category_failure:
  "(failed (http (patient_url mrn)) \<longrightarrow>
      get_patient_data rt http mrn = Inr (JNull, JNull, [], [], [], [])
      \<and> process_patient rt http gen mrn = Inr None)
   \<and> (lookup_patient http mrn = Inr (Some (pid, name)) \<longrightarrow>
        (failed (http (device_url rt pid)) \<longrightarrow>
           get_patient_data rt http mrn =
             then_do (conditions_of rt (safe_get_json http (condition_url rt pid))) (\<lambda>cs.
             then_do (procedures_of rt (safe_get_json http (procedure_url rt pid))) (\<lambda>ps.
             then_do (imaging_of rt (safe_get_json http (report_url rt pid))) (\<lambda>is.
             Inr (pid, name, [], cs, ps, is)))))
      \<and> (failed (http (condition_url rt pid)) \<longrightarrow>
           get_patient_data rt http mrn =
             then_do (devices_of rt (safe_get_json http (device_url rt pid))) (\<lambda>ds.
             then_do (procedures_of rt (safe_get_json http (procedure_url rt pid))) (\<lambda>ps.
             then_do (imaging_of rt (safe_get_json http (report_url rt pid))) (\<lambda>is.
             Inr (pid, name, ds, [], ps, is)))))
      \<and> (failed (http (procedure_url rt pid)) \<longrightarrow>
           get_patient_data rt http mrn =
             then_do (devices_of rt (safe_get_json http (device_url rt pid))) (\<lambda>ds.
             then_do (conditions_of rt (safe_get_json http (condition_url rt pid))) (\<lambda>cs.
             then_do (imaging_of rt (safe_get_json http (report_url rt pid))) (\<lambda>is.
             Inr (pid, name, ds, cs, [], is)))))
      \<and> (failed (http (report_url rt pid)) \<longrightarrow>
           get_patient_data rt http mrn =
             then_do (devices_of rt (safe_get_json http (device_url rt pid))) (\<lambda>ds.
             then_do (conditions_of rt (safe_get_json http (condition_url rt pid))) (\<lambda>cs.
             then_do (procedures_of rt (safe_get_json http (procedure_url rt pid))) (\<lambda>ps.
             Inr (pid, name, ds, cs, ps, [])))))
      \<and> (failed (http (device_url rt pid)) \<and> failed (http (condition_url rt pid))
           \<and> failed (http (procedure_url rt pid)) \<and> failed (http (report_url rt pid))
           \<and> truthy pid \<longrightarrow>
           get_patient_data rt http mrn = Inr (pid, name, [], [], [], [])
           \<and> process_patient rt http gen mrn =
               Inr (Some (report_row mrn name (analyze_with_ai rt gen name [] [] [] []) [] []))))"
  by (auto simp: get_patient_data_def process_patient_def lookup_patient_failed
        safe_get_json_failed empty_response_lists then_do_Inr then_do_Inl)

theorem category_failure_witness:
  "failed (dead_http (patient_url (ustr ''203715'')))
   \<and> get_patient_data ascii_rt dead_http (ustr ''203715'') = Inr (JNull, JNull, [], [], [], [])
   \<and> lookup_patient patient_only_http (ustr ''203715'') =
       Inr (Some (JStr (ustr ''p1''), JStr (ustr ''Ann Lee'')))
   \<and> failed (patient_only_http (device_url ascii_rt (JStr (ustr ''p1''))))
   \<and> failed (patient_only_http (condition_url ascii_rt (JStr (ustr ''p1''))))
   \<and> failed (patient_only_http (procedure_url ascii_rt (JStr (ustr ''p1''))))
   \<and> failed (patient_only_http (report_url ascii_rt (JStr (ustr ''p1''))))
   \<and> truthy (JStr (ustr ''p1''))
   \<and> process_patient ascii_rt patient_only_http quota_gen (ustr ''203715'') =
       Inr (Some (report_row (ustr ''203715'') (JStr (ustr ''Ann Lee''))
              (analyze_with_ai ascii_rt quota_gen (JStr (ustr ''Ann Lee'')) [] [] [] []) [] []))"
proof -
  have a: "failed (dead_http (patient_url (ustr ''203715'')))"
    by (simp add: failed_def dead_http_def)
  have b: "truthy (JStr (ustr ''p1''))"
    by (simp add: ustr_def)
  show ?thesis
    using a b example_lookup example_failed [of ascii_rt "JStr (ustr ''p1'')"]
      category_failure [where http = dead_http and mrn = "ustr ''203715''"
        and rt = ascii_rt and gen = quota_gen]
      category_failure [where http = patient_only_http and mrn = "ustr ''203715''"
        and pid = "JStr (ustr ''p1'')" and name = "JStr (ustr ''Ann Lee'')"
        and rt = ascii_rt and gen = quota_gen]
    by blast
qed

text \<open>The claim as stated fails for the Patient category: when that request raises a
  transport error the identifier is skipped as not found, and no row is produced.\<close>

theorem patient_failure_counterexample:
  "failed (dead_http (patient_url (ustr ''203715'')))
   \<and> process_patient ascii_rt dead_http quota_gen (ustr ''203715'') = Inr None"
  by (simp add: failed_def dead_http_def process_patient_def get_patient_data_def
        lookup_patient_failed then_do_def)

subsection \<open>A failing AI call\<close>

lemma sublist_skip_prefix:
  assumes "m \<noteq> []" and "hd m \<notin> set p"
  shows "sublist m (p @ s) \<longleftrightarrow> sublist m s"
  using assms
proof (induction p)
  case Nil
  then show ?case by simp
next
  case (Cons a p)
  then have "\<not> prefix m (a # p @ s)"
    by (cases m) auto
  with Cons show ?case
    by (simp add: sublist_Cons_right)
qed

lemma marker_after_error:
  "sublist status_marker (ustr ''AI Error: '' @ msg) \<longleftrightarrow> sublist status_marker msg"
  "sublist risk_marker (ustr ''AI Error: '' @ msg) \<longleftrightarrow> sublist risk_marker msg"
  by (rule sublist_skip_prefix; simp add: status_marker_def risk_marker_def ustr_def)+

text \<open>
  C6 (as amended). When the patient was found and the call of the model raises an
  exception with message \<open>msg\<close>, whatever \<open>msg\<close> is, the row is still produced and
  its analysis text is \<open>"AI Error: "\<close> followed by \<open>msg\<close>. Its status field is
  \<open>"Unknown"\<close> when \<open>msg\<close> does not contain \<open>**MRI Safety Status:**\<close>, and its risk
  field is \<open>"Unknown"\<close> when \<open>msg\<close> does not contain \<open>**Risk Level:**\<close>, each on its
  own.
\<close>

theorem ai_failure_row:
  assumes "get_patient_data rt http mrn = Inr (pid, name, devs, conds, procs, imgs)"
    and "truthy pid"
    and "gen (prompt_of rt name (truncate_history (history_text devs conds procs imgs))) = Inl msg"
  shows "\<exists>row. process_patient rt http gen mrn = Inr (Some row)
           \<and> map_of row (ustr ''Full Analysis'') = Some (JStr (ustr ''AI Error: '' @ msg))
           \<and> (\<not> sublist status_marker msg \<longrightarrow>
                map_of row (ustr ''Safety Status'') = Some (JStr (ustr ''Unknown'')))
           \<and> (\<not> sublist risk_marker msg \<longrightarrow>
                map_of row (ustr ''Risk Level'') = Some (JStr (ustr ''Unknown'')))"
proof -
  let ?r = "analyze_with_ai rt gen name devs conds procs imgs"
  have r: "?r = ustr ''AI Error: '' @ msg"
    using assms(3) by (simp add: analyze_with_ai_def)
  have s: "extract_field status_marker ?r = ustr ''Unknown''" if "\<not> sublist status_marker msg"
    using that by (simp add: r marker_after_error extract_field_absent)
  have k: "extract_field risk_marker ?r = ustr ''Unknown''" if "\<not> sublist risk_marker msg"
    using that by (simp add: r marker_after_error extract_field_absent)
  have "map_of (report_row mrn name ?r devs conds) (ustr ''Full Analysis'')
        = Some (JStr (ustr ''AI Error: '' @ msg))
     \<and> map_of (report_row mrn name ?r devs conds) (ustr ''Safety Status'')
        = Some (JStr (extract_field status_marker ?r))
     \<and> map_of (report_row mrn name ?r devs conds) (ustr ''Risk Level'')
        = Some (JStr (extract_field risk_marker ?r))"
    unfolding report_row_def by (simp add: r ustr_def)
  then show ?thesis
    using process_found [OF assms(1,2), of gen] s k by auto
qed

theorem ai_failure_row_witness:
  "(\<exists>row. process_patient ascii_rt patient_only_http quota_gen (ustr ''203715'')
                = Inr (Some row)
           \<and> map_of row (ustr ''Full Analysis'')
                = Some (JStr (ustr ''AI Error: '' @ ustr ''quota exceeded''))
           \<and> map_of row (ustr ''Safety Status'') = Some (JStr (ustr ''Unknown''))
           \<and> map_of row (ustr ''Risk Level'') = Some (JStr (ustr ''Unknown'')))
   \<and> (\<exists>row. process_patient ascii_rt patient_only_http blocked_gen (ustr ''203715'')
                = Inr (Some row)
           \<and> map_of row (ustr ''Full Analysis'')
                = Some (JStr (ustr ''AI Error: '' @ ustr ''blocked: **Risk Level:** High''))
           \<and> map_of row (ustr ''Safety Status'') = Some (JStr (ustr ''Unknown'')))"
proof -
  have a: "get_patient_data ascii_rt patient_only_http (ustr ''203715'') =
     Inr (JStr (ustr ''p1''), JStr (ustr ''Ann Lee''), [], [], [], [])"
    by (rule example_data)
  have b: "truthy (JStr (ustr ''p1''))"
    by (simp add: ustr_def)
  have c: "quota_gen (prompt_of ascii_rt (JStr (ustr ''Ann Lee''))
        (truncate_history (history_text [] [] [] []))) = Inl (ustr ''quota exceeded'')"
    by (simp add: quota_gen_def)
  have c': "blocked_gen (prompt_of ascii_rt (JStr (ustr ''Ann Lee''))
        (truncate_history (history_text [] [] [] []))) = Inl (ustr ''blocked: **Risk Level:** High'')"
    by (simp add: blocked_gen_def)
  have d: "\<not> sublist status_marker (ustr ''quota exceeded'')"
    by (simp add: status_marker_def ustr_def sublist_code)
  have e: "\<not> sublist risk_marker (ustr ''quota exceeded'')"
    by (simp add: risk_marker_def ustr_def sublist_code)
  have d': "\<not> sublist status_marker (ustr ''blocked: **Risk Level:** High'')"
    by (simp add: status_marker_def ustr_def sublist_code)
  obtain row where "process_patient ascii_rt patient_only_http quota_gen (ustr ''203715'')
                = Inr (Some row)"
    and "map_of row (ustr ''Full Analysis'')
                = Some (JStr (ustr ''AI Error: '' @ ustr ''quota exceeded''))"
    and "map_of row (ustr ''Safety Status'') = Some (JStr (ustr ''Unknown''))"
    and "map_of row (ustr ''Risk Level'') = Some (JStr (ustr ''Unknown''))"
    using d e ai_failure_row [where gen = quota_gen, OF a b c] by blast
  moreover obtain row' where
    "process_patient ascii_rt patient_only_http blocked_gen (ustr ''203715'') = Inr (Some row')"
    and "map_of row' (ustr ''Full Analysis'')
           = Some (JStr (ustr ''AI Error: '' @ ustr ''blocked: **Risk Level:** High''))"
    and "map_of row' (ustr ''Safety Status'') = Some (JStr (ustr ''Unknown''))"
    using d' ai_failure_row [where gen = blocked_gen, OF a b c'] by blast
  ultimately show ?thesis
    by blast
qed

text \<open>The claim as stated fails when the text of the exception contains a marker: the
  risk field is then read from the error string.\<close>

theorem ai_failure_marker_counterexample:
  "process_patient ascii_rt patient_only_http blocked_gen (ustr ''203715'') =
     Inr (Some (report_row (ustr ''203715'') (JStr (ustr ''Ann Lee''))
                  (ustr ''AI Error: blocked: **Risk Level:** High'') [] []))
   \<and> map_of (report_row (ustr ''203715'') (JStr (ustr ''Ann Lee''))
                  (ustr ''AI Error: blocked: **Risk Level:** High'') [] [])
         (ustr ''Risk Level'')
       = Some (JStr (ustr ''High''))"
proof -
  have "analyze_with_ai ascii_rt blocked_gen (JStr (ustr ''Ann Lee'')) [] [] [] []
          = ustr ''AI Error: blocked: **Risk Level:** High''"
    by (simp add: analyze_with_ai_def blocked_gen_def ustr_def)
  moreover have "extract_field risk_marker (ustr ''AI Error: blocked: **Risk Level:** High'')
          = ustr ''High''"
    by (simp add: extract_field_def search_group1_def risk_marker_def strip_def is_space_def
          NL_def ustr_def)
  ultimately show ?thesis
    using process_found [OF example_data, of ascii_rt blocked_gen]
    by (simp add: report_row_def) (simp add: ustr_def)
qed

subsection \<open>The length of the finding entries\<close>
























subsection \<open>Active conditions\<close>







subsection \<open>The number of rows\<close>

lemma failed_fetch_row:
  assumes "post (strip mrn) = Inl msg"
  shows "parse_data_to_row rt (fetch_patient_data post mrn) =
           Inr [(ustr ''MRN'', JStr mrn), (ustr ''Status'', JStr (ustr ''API Error'')),
                (ustr ''Summary'', JStr msg)]"
  using assms
  by (simp add: fetch_patient_data_def parse_data_to_row_def then_do_Inr ustr_def)

lemma report_loop2_length:
  "report_loop2 rt post mrns results = Inr rows \<Longrightarrow> length rows = length results + length mrns"
  by (induction mrns arbitrary: results) (auto simp: then_do_Inr_iff)

lemma report_loop2_all_failed:
  assumes "\<forall>m \<in> set mrns. \<exists>msg. post (strip m) = Inl msg"
  shows "\<exists>rows. report_loop2 rt post mrns results = Inr rows"
  using assms
proof (induction mrns arbitrary: results)
  case Nil
  then show ?case by simp
next
  case (Cons m mrns)
  then obtain msg where "post (strip m) = Inl msg"
    by auto
  then show ?case
    using Cons by (simp add: failed_fetch_row then_do_Inr)
qed

lemma process_patient_row:
  assumes "process_patient rt http gen mrn = Inr r"
  shows "(case r of None \<Rightarrow> \<not> patient_found http mrn
          | Some row \<Rightarrow> patient_found http mrn \<and> map_of row (ustr ''MRN'') = Some (JStr mrn)
                         \<and> map fst row = columns1)"
proof -
  from assms obtain found where f: "lookup_patient http mrn = Inr found"
    by (auto simp: process_patient_def get_patient_data_def then_do_Inr_iff)
  show ?thesis
  proof (cases found)
    case None
    with assms f show ?thesis
      by (auto simp: process_patient_def get_patient_data_def then_do_Inr patient_found_def)
  next
    case (Some pn)
    with assms f show ?thesis
      by (cases pn)
        (auto simp: process_patient_def get_patient_data_def then_do_Inr then_do_Inr_iff
           patient_found_def report_row_def columns1_def split: if_splits)
  qed
qed

lemma report_loop1_rows:
  "report_loop1 rt http gen mrns results = Inr rows \<Longrightarrow>
     map (\<lambda>row. map_of row (ustr ''MRN'')) rows =
       map (\<lambda>row. map_of row (ustr ''MRN'')) results
       @ map (\<lambda>m. Some (JStr m)) (filter (patient_found http) mrns)"
proof (induction mrns arbitrary: results)
  case Nil
  then show ?case by simp
next
  case (Cons m mrns)
  from Cons.prems obtain r where r: "process_patient rt http gen m = Inr r"
    and rest: "report_loop1 rt http gen mrns
                 (case r of None \<Rightarrow> results | Some flat_row \<Rightarrow> results @ [flat_row]) = Inr rows"
    by (auto simp: then_do_Inr_iff)
  show ?case
    using Cons.IH [OF rest] process_patient_row [OF r]
    by (cases r) auto
qed

text \<open>The example runs.\<close>

lemma example_run2:
  "\<exists>rows. report_loop2 ascii_rt mixed_post [ustr ''203715'', ustr ''999''] [] = Inr rows"
  by (simp add: fetch_patient_data_def mixed_post_def parse_data_to_row_def then_do_Inr
        then_do_Inl py_join_def strip_def is_space_def ustr_def)

lemma example_found:
  "patient_found patient_only_http (ustr ''203715'')"
  "\<not> patient_found patient_only_http (ustr ''999'')"
   apply (simp add: patient_found_def example_lookup) apply (simp add: ustr_def)
  apply (simp add: patient_found_def lookup_patient_failed patient_only_http_def failed_def patient_url_def ustr_def)
  done

lemma example_run1:
  "\<exists>rows. report_loop1 ascii_rt patient_only_http quota_gen [ustr ''203715'', ustr ''999''] [] = Inr rows"
proof -
  have "failed (patient_only_http (patient_url (ustr ''999'')))"
    by (simp add: patient_only_http_def failed_def patient_url_def ustr_def)
  then have "process_patient ascii_rt patient_only_http quota_gen (ustr ''999'') = Inr None"
    by (simp add: process_patient_def get_patient_data_def lookup_patient_failed then_do_Inr)
  moreover have "truthy (JStr (ustr ''p1''))" by (simp add: ustr_def)
  ultimately show ?thesis
    by (simp add: process_found [OF example_data] then_do_Inr)
qed


text \<open>
  C1 (as amended). A run of variant 2 that no exception of \<open>parse_data_to_row\<close>
  ends gives exactly one row per submitted identifier, and a run in which every
  request fails is such a run: each failure is an error row. A run of variant 1 that
  no exception of \<open>get_patient_data\<close> ends gives exactly one row per identifier
  whose Patient search gave a truthy id, in input order, and none for the others.
\<close>

theorem report_row_counts:
  "(report_loop2 rt post mrns [] = Inr rows_b \<longrightarrow> length rows_b = length mrns)
   \<and> ((\<forall>m \<in> set mrns. \<exists>msg. post (strip m) = Inl msg) \<longrightarrow>
        (\<exists>rows. report_loop2 rt post mrns [] = Inr rows \<and> length rows = length mrns))
   \<and> (report_loop1 rt http gen mrns [] = Inr rows_a \<longrightarrow>
        length rows_a = length (filter (patient_found http) mrns)
        \<and> map (\<lambda>row. map_of row (ustr ''MRN'')) rows_a =
            map (\<lambda>m. Some (JStr m)) (filter (patient_found http) mrns))"
proof -
  have a: "length rows_b = length mrns" if "report_loop2 rt post mrns [] = Inr rows_b"
    using report_loop2_length [OF that] by simp
  have b: "\<exists>rows. report_loop2 rt post mrns [] = Inr rows \<and> length rows = length mrns"
    if "\<forall>m \<in> set mrns. \<exists>msg. post (strip m) = Inl msg"
    using report_loop2_all_failed [OF that, of rt "[]"] report_loop2_length [of rt post mrns "[]"]
    by auto
  have c: "map (\<lambda>row. map_of row (ustr ''MRN'')) rows_a =
            map (\<lambda>m. Some (JStr m)) (filter (patient_found http) mrns)"
    if "report_loop1 rt http gen mrns [] = Inr rows_a"
    using report_loop1_rows [OF that] by simp
  have d: "length rows_a = length (filter (patient_found http) mrns)"
    if "report_loop1 rt http gen mrns [] = Inr rows_a"
    using c [OF that] by (metis length_map)
  from a b c d show ?thesis by blast
qed

theorem report_row_counts_witness:
  "(\<exists>rows. report_loop2 ascii_rt mixed_post [ustr ''203715'', ustr ''999''] [] = Inr rows
       \<and> length rows = 2)
   \<and> (\<exists>rows. report_loop2 ascii_rt down_post [ustr ''203715'', ustr ''999''] [] = Inr rows
       \<and> length rows = 2)
   \<and> (\<exists>rows. report_loop1 ascii_rt patient_only_http quota_gen
                [ustr ''203715'', ustr ''999''] [] = Inr rows
       \<and> length rows = 1)"
proof -
  obtain rows_b where a:
    "report_loop2 ascii_rt mixed_post [ustr ''203715'', ustr ''999''] [] = Inr rows_b"
    using example_run2 by blast
  obtain rows_a where b:
    "report_loop1 ascii_rt patient_only_http quota_gen [ustr ''203715'', ustr ''999''] []
       = Inr rows_a"
    using example_run1 by blast
  have "length rows_b = 2 \<and> length rows_a = 1"
    using a b example_found
      report_row_counts [where rt = ascii_rt and post = mixed_post
        and mrns = "[ustr ''203715'', ustr ''999'']" and rows_b = rows_b
        and http = patient_only_http and gen = quota_gen and rows_a = rows_a]
    by simp
  moreover have "\<forall>m \<in> set [ustr ''203715'', ustr ''999''].
                   \<exists>msg. down_post (strip m) = Inl msg"
    by (simp add: down_post_def)
  then have "\<exists>rows. report_loop2 ascii_rt down_post [ustr ''203715'', ustr ''999''] []
                      = Inr rows \<and> length rows = length [ustr ''203715'', ustr ''999'']"
    using report_row_counts [where rt = ascii_rt and post = down_post
        and mrns = "[ustr ''203715'', ustr ''999'']"]
    by blast
  moreover have "length [ustr ''203715'', ustr ''999''] = 2"
    by simp
  ultimately show ?thesis
    using a b by metis
qed

text \<open>The claim as stated fails when a response makes \<open>parse_data_to_row\<close> raise,
  here with \<open>"dob": null\<close>: the run of variant 2 ends with the exception and no
  report, for one submitted identifier.\<close>

theorem aborted_run_counterexample:
  "report_loop2 ascii_rt null_dob_post [ustr ''203715''] [] = Inl AttributeError"
  by (simp add: fetch_patient_data_def null_dob_post_def parse_data_to_row_def then_do_Inr
        then_do_Inl py_join_def ustr_def)


subsection \<open>The columns of a row\<close>

lemma parse_columns:
  assumes "parse_data_to_row rt data = Inr row"
  shows "map fst row =
           (if py_in (ustr ''error'') data = Inr True then error_columns else columns2)"
proof -
  from assms obtain is_error where i: "py_in (ustr ''error'') data = Inr is_error"
    by (auto simp: parse_data_to_row_def then_do_Inr_iff)
  show ?thesis
  proof (cases is_error)
    case True
    with assms i show ?thesis
      by (auto simp: parse_data_to_row_def then_do_Inr then_do_Inr_iff error_columns_def)
  next
    case False
    with assms i show ?thesis
      by (auto simp: parse_data_to_row_def then_do_Inr then_do_Inr_iff columns2_def)
  qed
qed

lemma parse_missing:
  assumes "map_of kvs (ustr ''error'') = None"
    and "map_of kvs (ustr ''mri_safety_assessment'') = None"
    and "map_of kvs (ustr ''patient_info'') = None"
    and "map_of kvs (ustr ''analysis_details'') = None"
    and "map_of kvs (ustr ''timestamp'') = None"
  shows "parse_data_to_row rt (JObj kvs) = Inr (map (\<lambda>c. (c, JStr [])) columns2)"
proof -
  have "ustr ''error'' \<notin> set (map fst kvs)"
    using assms(1) by (metis has_key_iff)
  then show ?thesis
    using assms
    by (simp add: parse_data_to_row_def then_do_Inr py_join_def columns2_def)
qed

lemma py_get_Inr_iff:
  "py_get v k d = Inr r \<longleftrightarrow>
     (\<exists>kvs. v = JObj kvs \<and> r = (case map_of kvs k of None \<Rightarrow> d | Some x \<Rightarrow> x))"
  by (cases v) auto

lemma str_replace_Inr_iff:
  "str_replace v old new = Inr r \<longleftrightarrow> (\<exists>s. v = JStr s \<and> r = JStr (py_replace old new s))"
  by (cases v) auto

lemma py_join_empty: "py_join sep (JArr []) = Inr []"
  by (simp add: py_join_def then_do_Inr)

lemma then_doE:
  assumes "then_do m f = Inr r"
  obtains v where "m = Inr v" and "f v = Inr r"
  using assms by (auto simp: then_do_Inr_iff)

lemma success_fields:
  assumes "parse_data_to_row rt (JObj kvs) = Inr row"
    and "map_of kvs (ustr ''error'') = None"
  shows "(sub_field kvs (ustr ''patient_info'') (ustr ''mrn'') = None \<longrightarrow>
            map_of row (ustr ''MRN'') = Some (JStr []))
       \<and> (sub_field kvs (ustr ''patient_info'') (ustr ''name'') = None \<longrightarrow>
            map_of row (ustr ''Name'') = Some (JStr []))
       \<and> (sub_field kvs (ustr ''patient_info'') (ustr ''dob'') = None \<longrightarrow>
            map_of row (ustr ''DOB'') = Some (JStr []))
       \<and> (sub_field kvs (ustr ''patient_info'') (ustr ''gender'') = None \<longrightarrow>
            map_of row (ustr ''Gender'') = Some (JStr []))
       \<and> (sub_field kvs (ustr ''mri_safety_assessment'') (ustr ''status'') = None \<longrightarrow>
            map_of row (ustr ''Safety Status'') = Some (JStr []))
       \<and> (sub_field kvs (ustr ''mri_safety_assessment'') (ustr ''risk'') = None \<longrightarrow>
            map_of row (ustr ''Risk Level'') = Some (JStr []))
       \<and> (sub_field kvs (ustr ''analysis_details'') (ustr ''individual_findings'') = None \<longrightarrow>
            map_of row (ustr ''Devices/Implants Found'') = Some (JStr []))
       \<and> (sub_field kvs (ustr ''mri_safety_assessment'') (ustr ''summary'') = None \<longrightarrow>
            map_of row (ustr ''Clinical Summary'') = Some (JStr []))
       \<and> (sub_field kvs (ustr ''mri_safety_assessment'') (ustr ''concerns'') = None \<longrightarrow>
            map_of row (ustr ''Key Concerns'') = Some (JStr []))
       \<and> (sub_field kvs (ustr ''mri_safety_assessment'') (ustr ''recommendations'') = None \<longrightarrow>
            map_of row (ustr ''Technologist Recommendations'') = Some (JStr []))
       \<and> (map_of kvs (ustr ''timestamp'') = None \<longrightarrow>
            map_of row (ustr ''Timestamp'') = Some (JStr []))"
proof -
  have e: "ustr ''error'' \<notin> set (map fst kvs)"
    using assms(2) by (metis has_key_iff)
  have p: "parse_data_to_row rt (JObj kvs) =
       then_do (py_get (JObj kvs) (ustr ''mri_safety_assessment'') (JObj [])) (\<lambda>assessment.
       then_do (py_get (JObj kvs) (ustr ''patient_info'') (JObj [])) (\<lambda>patient.
       then_do (py_get (JObj kvs) (ustr ''analysis_details'') (JObj [])) (\<lambda>details.
       then_do (py_get details (ustr ''individual_findings'') (JArr [])) (\<lambda>findings_list.
       then_do (py_iter findings_list) (\<lambda>items.
       then_do (findings_loop rt items []) (\<lambda>devices_found.
       then_do (py_get assessment (ustr ''concerns'') (JArr [])) (\<lambda>concerns.
       then_do (py_join [NL] concerns) (\<lambda>concerns_str.
       then_do (py_get assessment (ustr ''recommendations'') (JArr [])) (\<lambda>recs.
       then_do (py_join [NL] recs) (\<lambda>recs_str.
       then_do (py_get patient (ustr ''mrn'') (JStr [])) (\<lambda>p_mrn.
       then_do (str_replace p_mrn [127973, SP] []) (\<lambda>c_mrn.
       then_do (py_get patient (ustr ''name'') (JStr [])) (\<lambda>p_name.
       then_do (str_replace p_name [128100, SP] []) (\<lambda>c_name.
       then_do (py_get patient (ustr ''dob'') (JStr [])) (\<lambda>p_dob.
       then_do (str_replace p_dob [128197, SP] []) (\<lambda>c_dob.
       then_do (py_get patient (ustr ''gender'') (JStr [])) (\<lambda>p_gender.
       then_do (str_replace p_gender [9895, SP] []) (\<lambda>c_gender.
       then_do (py_get assessment (ustr ''status'') (JStr [])) (\<lambda>status.
       then_do (py_get assessment (ustr ''risk'') (JStr [])) (\<lambda>risk.
       then_do (py_get assessment (ustr ''summary'') (JStr [])) (\<lambda>summary.
       then_do (py_get (JObj kvs) (ustr ''timestamp'') (JStr [])) (\<lambda>timestamp.
       Inr [(ustr ''MRN'', c_mrn),
            (ustr ''Name'', c_name),
            (ustr ''DOB'', c_dob),
            (ustr ''Gender'', c_gender),
            (ustr ''Safety Status'', status),
            (ustr ''Risk Level'', risk),
            (ustr ''Devices/Implants Found'', JStr (join_strs [NL] devices_found)),
            (ustr ''Clinical Summary'', summary),
            (ustr ''Key Concerns'', JStr concerns_str),
            (ustr ''Technologist Recommendations'', JStr recs_str),
            (ustr ''Timestamp'', timestamp)]))))))))))))))))))))))"
    unfolding parse_data_to_row_def using e by (simp add: then_do_Inr)
  from assms(1) [unfolded p] show ?thesis
  proof (elim then_doE, goal_cases)
    case (1 assessment patient details findings_list items devices_found concerns
        concerns_str recs recs_str p_mrn c_mrn p_name c_name p_dob c_dob p_gender c_gender
        status risk summary timestamp)
    note a = 1(1) and b = 1(2) and c = 1(3) and d = 1(4) and d1 = 1(5) and d2 = 1(6)
      and f = 1(7) and f1 = 1(8) and g = 1(9) and g1 = 1(10) and m = 1(11) and m1 = 1(12)
      and n = 1(13) and n1 = 1(14) and o = 1(15) and o1 = 1(16) and q = 1(17) and q1 = 1(18)
      and s = 1(19) and t = 1(20) and u = 1(21) and w = 1(22) and row = 1(23)
    have r: "map_of row (ustr ''MRN'') = Some c_mrn"
      "map_of row (ustr ''Name'') = Some c_name"
      "map_of row (ustr ''DOB'') = Some c_dob"
      "map_of row (ustr ''Gender'') = Some c_gender"
      "map_of row (ustr ''Safety Status'') = Some status"
      "map_of row (ustr ''Risk Level'') = Some risk"
      "map_of row (ustr ''Devices/Implants Found'') = Some (JStr (join_strs [NL] devices_found))"
      "map_of row (ustr ''Clinical Summary'') = Some summary"
      "map_of row (ustr ''Key Concerns'') = Some (JStr concerns_str)"
      "map_of row (ustr ''Technologist Recommendations'') = Some (JStr recs_str)"
      "map_of row (ustr ''Timestamp'') = Some timestamp"
      using row by (auto simp: ustr_def)
    have h1: "c_mrn = JStr []" if "sub_field kvs (ustr ''patient_info'') (ustr ''mrn'') = None"
      using b m m1 that
      by (auto simp: py_get_Inr_iff str_replace_Inr_iff sub_field_def split: option.splits)
    have h2: "c_name = JStr []" if "sub_field kvs (ustr ''patient_info'') (ustr ''name'') = None"
      using b n n1 that
      by (auto simp: py_get_Inr_iff str_replace_Inr_iff sub_field_def split: option.splits)
    have h3: "c_dob = JStr []" if "sub_field kvs (ustr ''patient_info'') (ustr ''dob'') = None"
      using b o o1 that
      by (auto simp: py_get_Inr_iff str_replace_Inr_iff sub_field_def split: option.splits)
    have h4: "c_gender = JStr []" if "sub_field kvs (ustr ''patient_info'') (ustr ''gender'') = None"
      using b q q1 that
      by (auto simp: py_get_Inr_iff str_replace_Inr_iff sub_field_def split: option.splits)
    have h5: "status = JStr []"
      if "sub_field kvs (ustr ''mri_safety_assessment'') (ustr ''status'') = None"
      using a s that by (auto simp: py_get_Inr_iff sub_field_def split: option.splits)
    have h6: "risk = JStr []"
      if "sub_field kvs (ustr ''mri_safety_assessment'') (ustr ''risk'') = None"
      using a t that by (auto simp: py_get_Inr_iff sub_field_def split: option.splits)
    have h7: "devices_found = []"
      if "sub_field kvs (ustr ''analysis_details'') (ustr ''individual_findings'') = None"
      using c d d1 d2 that by (auto simp: py_get_Inr_iff sub_field_def split: option.splits)
    have h8: "summary = JStr []"
      if "sub_field kvs (ustr ''mri_safety_assessment'') (ustr ''summary'') = None"
      using a u that by (auto simp: py_get_Inr_iff sub_field_def split: option.splits)
    have h9: "concerns_str = []"
      if "sub_field kvs (ustr ''mri_safety_assessment'') (ustr ''concerns'') = None"
      using a f f1 that
      by (auto simp: py_get_Inr_iff py_join_empty sub_field_def split: option.splits)
    have h10: "recs_str = []"
      if "sub_field kvs (ustr ''mri_safety_assessment'') (ustr ''recommendations'') = None"
      using a g g1 that
      by (auto simp: py_get_Inr_iff py_join_empty sub_field_def split: option.splits)
    have h11: "timestamp = JStr []" if "map_of kvs (ustr ''timestamp'') = None"
      using w that by simp
    show ?case
      unfolding r using h1 h2 h3 h4 h5 h6 h7 h8 h9 h10 h11 by simp
  qed
qed


lemma error_row_unknown:
  assumes "map_of evs (ustr ''error'') = Some err"
    and "dict_if_present evs (ustr ''patient_info'')"
    and "sub_field evs (ustr ''patient_info'') (ustr ''mrn'') = None"
  shows "parse_data_to_row rt (JObj evs) =
           Inr [(ustr ''MRN'', JStr (ustr ''Unknown'')),
                (ustr ''Status'', JStr (ustr ''API Error'')), (ustr ''Summary'', err)]"
  using error_branch [OF assms(1,2), of rt] assms(2,3)
  by (auto simp: sub_field_def dict_if_present_def is_dict_def split: option.splits json.splits)

lemma found_row_lists:
  assumes "get_patient_data rt http mrn = Inr (pid, name, devs, conds, procs, imgs)"
    and "truthy pid"
  shows "\<exists>row. process_patient rt http gen mrn = Inr (Some row)
           \<and> (devs = [] \<longrightarrow> map_of row (ustr ''Devices'') = Some (JStr []))
           \<and> (conds = [] \<longrightarrow> map_of row (ustr ''Conditions'') = Some (JStr []))"
  using process_found [OF assms, of gen] by (simp add: report_row_def ustr_def)

lemma partial_row:
  "parse_data_to_row ascii_rt (JObj partial_reply) =
     Inr [(ustr ''MRN'', JStr (ustr ''203715'')), (ustr ''Name'', JStr []),
          (ustr ''DOB'', JStr []), (ustr ''Gender'', JStr []),
          (ustr ''Safety Status'', JStr (ustr ''Safe'')), (ustr ''Risk Level'', JStr []),
          (ustr ''Devices/Implants Found'', JStr []), (ustr ''Clinical Summary'', JStr []),
          (ustr ''Key Concerns'', JStr []), (ustr ''Technologist Recommendations'', JStr []),
          (ustr ''Timestamp'', JStr [])]"
  by (simp add: parse_data_to_row_def partial_reply_def then_do_Inr py_join_def ustr_def SP_def)

text \<open>
  C5 (as amended). Every row of variant 1 has the seven columns of its dict literal,
  and its Devices and Conditions columns are empty strings when the lists are empty.
  In variant 2 a row of a response without \<open>"error"\<close> has the eleven columns MRN to
  Timestamp, and each column whose field the response does not have is an empty
  string, whatever else the response has; a row of a response with \<open>"error"\<close> has the
  three columns MRN, Status and Summary only, with MRN \<open>"Unknown"\<close> when the response
  has no \<open>patient_info.mrn\<close>.
\<close>

theorem row_columns:
  "(process_patient rt http gen mrn = Inr (Some row_a) \<longrightarrow> map fst row_a = columns1)
   \<and> (get_patient_data rt http mrn = Inr (pid, name, devs, conds, procs, imgs) \<and> truthy pid \<longrightarrow>
        (\<exists>row. process_patient rt http gen mrn = Inr (Some row)
           \<and> (devs = [] \<longrightarrow> map_of row (ustr ''Devices'') = Some (JStr []))
           \<and> (conds = [] \<longrightarrow> map_of row (ustr ''Conditions'') = Some (JStr []))))
   \<and> (parse_data_to_row rt data = Inr row_b \<longrightarrow>
        map fst row_b =
          (if py_in (ustr ''error'') data = Inr True then error_columns else columns2))
   \<and> (map_of kvs (ustr ''error'') = None
        \<and> map_of kvs (ustr ''mri_safety_assessment'') = None
        \<and> map_of kvs (ustr ''patient_info'') = None
        \<and> map_of kvs (ustr ''analysis_details'') = None
        \<and> map_of kvs (ustr ''timestamp'') = None \<longrightarrow>
        parse_data_to_row rt (JObj kvs) = Inr (map (\<lambda>c. (c, JStr [])) columns2))
   \<and> (parse_data_to_row rt (JObj svs) = Inr row_s \<and> map_of svs (ustr ''error'') = None \<longrightarrow>
         (sub_field svs (ustr ''patient_info'') (ustr ''mrn'') = None \<longrightarrow>
            map_of row_s (ustr ''MRN'') = Some (JStr []))
       \<and> (sub_field svs (ustr ''patient_info'') (ustr ''name'') = None \<longrightarrow>
            map_of row_s (ustr ''Name'') = Some (JStr []))
       \<and> (sub_field svs (ustr ''patient_info'') (ustr ''dob'') = None \<longrightarrow>
            map_of row_s (ustr ''DOB'') = Some (JStr []))
       \<and> (sub_field svs (ustr ''patient_info'') (ustr ''gender'') = None \<longrightarrow>
            map_of row_s (ustr ''Gender'') = Some (JStr []))
       \<and> (sub_field svs (ustr ''mri_safety_assessment'') (ustr ''status'') = None \<longrightarrow>
            map_of row_s (ustr ''Safety Status'') = Some (JStr []))
       \<and> (sub_field svs (ustr ''mri_safety_assessment'') (ustr ''risk'') = None \<longrightarrow>
            map_of row_s (ustr ''Risk Level'') = Some (JStr []))
       \<and> (sub_field svs (ustr ''analysis_details'') (ustr ''individual_findings'') = None \<longrightarrow>
            map_of row_s (ustr ''Devices/Implants Found'') = Some (JStr []))
       \<and> (sub_field svs (ustr ''mri_safety_assessment'') (ustr ''summary'') = None \<longrightarrow>
            map_of row_s (ustr ''Clinical Summary'') = Some (JStr []))
       \<and> (sub_field svs (ustr ''mri_safety_assessment'') (ustr ''concerns'') = None \<longrightarrow>
            map_of row_s (ustr ''Key Concerns'') = Some (JStr []))
       \<and> (sub_field svs (ustr ''mri_safety_assessment'') (ustr ''recommendations'') = None \<longrightarrow>
            map_of row_s (ustr ''Technologist Recommendations'') = Some (JStr []))
       \<and> (map_of svs (ustr ''timestamp'') = None \<longrightarrow>
            map_of row_s (ustr ''Timestamp'') = Some (JStr [])))
   \<and> (map_of evs (ustr ''error'') = Some err \<and> dict_if_present evs (ustr ''patient_info'')
        \<and> sub_field evs (ustr ''patient_info'') (ustr ''mrn'') = None \<longrightarrow>
        parse_data_to_row rt (JObj evs) =
          Inr [(ustr ''MRN'', JStr (ustr ''Unknown'')),
               (ustr ''Status'', JStr (ustr ''API Error'')), (ustr ''Summary'', err)])"
proof -
  have a: "map fst row_a = columns1" if "process_patient rt http gen mrn = Inr (Some row_a)"
    using process_patient_row [OF that] by simp
  show ?thesis
    by (intro conjI impI a found_row_lists parse_columns parse_missing error_row_unknown;
        (elim conjE)?; (assumption | (use success_fields [of rt svs row_s] in blast)))
qed


text \<open>The claim as stated fails in variant 2: an error row and a row of a successful
  response do not have the same columns.\<close>

theorem error_row_columns_counterexample:
  "parse_data_to_row ascii_rt (JObj [(ustr ''error'', JStr (ustr ''timeout''))]) =
     Inr [(ustr ''MRN'', JStr (ustr ''Unknown'')),
          (ustr ''Status'', JStr (ustr ''API Error'')),
          (ustr ''Summary'', JStr (ustr ''timeout''))]
   \<and> parse_data_to_row ascii_rt (JObj []) =
     Inr [(ustr ''MRN'', JStr []), (ustr ''Name'', JStr []), (ustr ''DOB'', JStr []),
          (ustr ''Gender'', JStr []), (ustr ''Safety Status'', JStr []),
          (ustr ''Risk Level'', JStr []), (ustr ''Devices/Implants Found'', JStr []),
          (ustr ''Clinical Summary'', JStr []), (ustr ''Key Concerns'', JStr []),
          (ustr ''Technologist Recommendations'', JStr []), (ustr ''Timestamp'', JStr [])]
   \<and> error_columns \<noteq> columns2"
  by (simp add: parse_data_to_row_def then_do_Inr py_join_def error_columns_def columns2_def
        ustr_def)

theorem row_columns_witness:
  "process_patient ascii_rt patient_only_http quota_gen (ustr ''203715'') =
     Inr (Some (report_row (ustr ''203715'') (JStr (ustr ''Ann Lee''))
                  (analyze_with_ai ascii_rt quota_gen (JStr (ustr ''Ann Lee'')) [] [] [] [])
                  [] []))
   \<and> map fst (report_row (ustr ''203715'') (JStr (ustr ''Ann Lee''))
                  (analyze_with_ai ascii_rt quota_gen (JStr (ustr ''Ann Lee'')) [] [] [] [])
                  [] []) = columns1
   \<and> parse_data_to_row ascii_rt (JObj []) = Inr (map (\<lambda>c. (c, JStr [])) columns2)
   \<and> (\<exists>row. parse_data_to_row ascii_rt (JObj partial_reply) = Inr row
         \<and> map fst row = columns2
         \<and> map_of row (ustr ''MRN'') = Some (JStr (ustr ''203715''))
         \<and> map_of row (ustr ''Safety Status'') = Some (JStr (ustr ''Safe''))
         \<and> map_of row (ustr ''Name'') = Some (JStr [])
         \<and> map_of row (ustr ''DOB'') = Some (JStr [])
         \<and> map_of row (ustr ''Gender'') = Some (JStr [])
         \<and> map_of row (ustr ''Risk Level'') = Some (JStr [])
         \<and> map_of row (ustr ''Devices/Implants Found'') = Some (JStr [])
         \<and> map_of row (ustr ''Clinical Summary'') = Some (JStr [])
         \<and> map_of row (ustr ''Key Concerns'') = Some (JStr [])
         \<and> map_of row (ustr ''Technologist Recommendations'') = Some (JStr [])
         \<and> map_of row (ustr ''Timestamp'') = Some (JStr []))
   \<and> parse_data_to_row ascii_rt (JObj [(ustr ''error'', JStr (ustr ''timeout''))]) =
       Inr [(ustr ''MRN'', JStr (ustr ''Unknown'')),
            (ustr ''Status'', JStr (ustr ''API Error'')),
            (ustr ''Summary'', JStr (ustr ''timeout''))]"
proof -
  let ?row_a = "report_row (ustr ''203715'') (JStr (ustr ''Ann Lee''))
                  (analyze_with_ai ascii_rt quota_gen (JStr (ustr ''Ann Lee'')) [] [] [] [])
                  [] []"
  have a: "process_patient ascii_rt patient_only_http quota_gen (ustr ''203715'') =
             Inr (Some ?row_a)"
    by (rule process_found [OF example_data]) (simp add: ustr_def)
  have b: "map_of [(ustr ''error'', JStr (ustr ''timeout''))] (ustr ''error'')
             = Some (JStr (ustr ''timeout''))"
    "dict_if_present [(ustr ''error'', JStr (ustr ''timeout''))] (ustr ''patient_info'')"
    "sub_field [(ustr ''error'', JStr (ustr ''timeout''))] (ustr ''patient_info'') (ustr ''mrn'')
       = None"
    by (simp_all add: dict_if_present_def sub_field_def ustr_def)
  obtain row where p: "parse_data_to_row ascii_rt (JObj partial_reply) = Inr row"
    and v: "map_of row (ustr ''MRN'') = Some (JStr (ustr ''203715''))"
      "map_of row (ustr ''Safety Status'') = Some (JStr (ustr ''Safe''))"
    using partial_row by (simp add: ustr_def)
  have q: "map_of partial_reply (ustr ''error'') = None"
    "py_in (ustr ''error'') (JObj partial_reply) \<noteq> Inr True"
    "sub_field partial_reply (ustr ''patient_info'') (ustr ''name'') = None"
    "sub_field partial_reply (ustr ''patient_info'') (ustr ''dob'') = None"
    "sub_field partial_reply (ustr ''patient_info'') (ustr ''gender'') = None"
    "sub_field partial_reply (ustr ''mri_safety_assessment'') (ustr ''risk'') = None"
    "sub_field partial_reply (ustr ''analysis_details'') (ustr ''individual_findings'') = None"
    "sub_field partial_reply (ustr ''mri_safety_assessment'') (ustr ''summary'') = None"
    "sub_field partial_reply (ustr ''mri_safety_assessment'') (ustr ''concerns'') = None"
    "sub_field partial_reply (ustr ''mri_safety_assessment'') (ustr ''recommendations'') = None"
    "map_of partial_reply (ustr ''timestamp'') = None"
    by (simp_all add: partial_reply_def sub_field_def ustr_def)
  note t = row_columns [where rt = ascii_rt and http = patient_only_http and gen = quota_gen
        and mrn = "ustr ''203715''" and row_a = ?row_a and kvs = "[]"
        and data = "JObj partial_reply" and row_b = row
        and svs = partial_reply and row_s = row
        and evs = "[(ustr ''error'', JStr (ustr ''timeout''))]"
        and err = "JStr (ustr ''timeout'')"]
  note t1 = t [THEN conjunct1]
    and t3 = t [THEN conjunct2, THEN conjunct2, THEN conjunct1]
    and t4 = t [THEN conjunct2, THEN conjunct2, THEN conjunct2, THEN conjunct1]
    and t5 = t [THEN conjunct2, THEN conjunct2, THEN conjunct2, THEN conjunct2, THEN conjunct1]
    and t6 = t [THEN conjunct2, THEN conjunct2, THEN conjunct2, THEN conjunct2, THEN conjunct2]
  have c: "map fst ?row_a = columns1"
    using t1 a by (rule mp)
  have d: "parse_data_to_row ascii_rt (JObj []) = Inr (map (\<lambda>c. (c, JStr [])) columns2)"
    using t4 by simp
  have e: "map fst row = columns2"
    using t3 [THEN mp, OF p] q(2) by simp
  note u = t5 [THEN mp, OF conjI [OF p q(1)]]
  have f: "map_of row (ustr ''Name'') = Some (JStr [])"
    "map_of row (ustr ''DOB'') = Some (JStr [])"
    "map_of row (ustr ''Gender'') = Some (JStr [])"
    "map_of row (ustr ''Risk Level'') = Some (JStr [])"
    "map_of row (ustr ''Devices/Implants Found'') = Some (JStr [])"
    "map_of row (ustr ''Clinical Summary'') = Some (JStr [])"
    "map_of row (ustr ''Key Concerns'') = Some (JStr [])"
    "map_of row (ustr ''Technologist Recommendations'') = Some (JStr [])"
    "map_of row (ustr ''Timestamp'') = Some (JStr [])"
    using u by (simp_all only: q simp_thms)
  have g: "parse_data_to_row ascii_rt (JObj [(ustr ''error'', JStr (ustr ''timeout''))]) =
       Inr [(ustr ''MRN'', JStr (ustr ''Unknown'')),
            (ustr ''Status'', JStr (ustr ''API Error'')),
            (ustr ''Summary'', JStr (ustr ''timeout''))]"
    using t6 [THEN mp, OF conjI [OF b(1) conjI [OF b(2) b(3)]]] .
  have "\<exists>row. parse_data_to_row ascii_rt (JObj partial_reply) = Inr row
         \<and> map fst row = columns2
         \<and> map_of row (ustr ''MRN'') = Some (JStr (ustr ''203715''))
         \<and> map_of row (ustr ''Safety Status'') = Some (JStr (ustr ''Safe''))
         \<and> map_of row (ustr ''Name'') = Some (JStr [])
         \<and> map_of row (ustr ''DOB'') = Some (JStr [])
         \<and> map_of row (ustr ''Gender'') = Some (JStr [])
         \<and> map_of row (ustr ''Risk Level'') = Some (JStr [])
         \<and> map_of row (ustr ''Devices/Implants Found'') = Some (JStr [])
         \<and> map_of row (ustr ''Clinical Summary'') = Some (JStr [])
         \<and> map_of row (ustr ''Key Concerns'') = Some (JStr [])
         \<and> map_of row (ustr ''Technologist Recommendations'') = Some (JStr [])
         \<and> map_of row (ustr ''Timestamp'') = Some (JStr [])"
    by (rule exI [of _ row]) (simp only: p e v f simp_thms)
  with a c d g show ?thesis
    by (simp only: simp_thms)
qed

end
